theory Spec2Isabelle
  imports Main "HOL-Library.Sublist"
begin

section \<open>Migration 048: the ssh\_connections foreign-key rewrite\<close>

text \<open>
  A shallow embedding of \<^verbatim>\<open>app/database/migrations/048_fix_ssh_connection_cascade.py\<close>.
  The module has two functions, \<^verbatim>\<open>upgrade(connection)\<close> and
  \<^verbatim>\<open>downgrade(connection)\<close>. Everything \<^verbatim>\<open>upgrade\<close> does goes
  through \<^verbatim>\<open>connection.execute\<close>: two catalog queries (PRAGMA) and six statements.
  The connection is modelled as an engine (three operations on a database state, each of
  which may raise) so that the control flow of the Python, with its
  \<^verbatim>\<open>try/except Exception\<close>, is a function of any engine; the reference engine
  of the migration (SQLite, whose PRAGMAs the code names) is then modelled as one
  particular engine.
\<close>

subsection \<open>Rows of the two catalog queries\<close>

text \<open>
  \<^verbatim>\<open>PRAGMA table_info\<close> rows are \<^verbatim>\<open>(cid, name, type, notnull, dflt_value, pk)\<close>;
  \<^verbatim>\<open>notnull\<close> is 0 or 1 and is only tested for truth, \<^verbatim>\<open>dflt_value\<close> is
  \<^verbatim>\<open>None\<close> or the text of the default expression, \<^verbatim>\<open>pk\<close> is 0 for a
  column outside the primary key and otherwise its 1-based position in it.
\<close>

record col_row =
  col_cid :: nat
  col_name :: string
  col_type :: string
  col_notnull :: bool
  col_dflt_value :: "string option"
  col_pk :: nat

text \<open>
  \<^verbatim>\<open>PRAGMA foreign_key_list\<close> rows are
  \<^verbatim>\<open>(id, seq, table, from, to, on_update, on_delete, match)\<close>; the actions are strings.
\<close>

record fk_row =
  fk_id :: nat
  fk_seq :: nat
  fk_table :: string
  fk_from :: string
  fk_to :: string
  fk_on_update :: string
  fk_on_delete :: string
  fk_match :: string

subsection \<open>DDL synthesis (lines 41--58)\<close>

text \<open>Python's \<^verbatim>\<open>sep.join(xs)\<close>.\<close>

fun join :: "string \<Rightarrow> string list \<Rightarrow> string" where
  "join sep [] = []"
| "join sep [x] = x"
| "join sep (x # y # ys) = x @ sep @ join sep (y # ys)"

text \<open>
  The body of the \<^verbatim>\<open>for\<close> loop: the line appended to \<^verbatim>\<open>col_defs\<close>
  for one row. A primary-key column takes the first branch, which looks at neither
  \<^verbatim>\<open>notnull\<close> nor \<^verbatim>\<open>dflt_value\<close>.
\<close>

definition col_def_line :: "col_row \<Rightarrow> string" where
  "col_def_line r =
     (if col_pk r \<noteq> 0 then ''    '' @ col_name r @ '' '' @ col_type r @ '' PRIMARY KEY''
      else join '' ''
             ([''    '' @ col_name r, col_type r]
              @ (if col_notnull r then [''NOT NULL''] else [])
              @ (case col_dflt_value r of None \<Rightarrow> [] | Some d \<Rightarrow> [''DEFAULT '' @ d])))"

text \<open>The loop itself: \<^verbatim>\<open>col_defs\<close> is the accumulator, appended to once per row.\<close>

fun col_defs_loop :: "string list \<Rightarrow> col_row list \<Rightarrow> string list" where
  "col_defs_loop col_defs [] = col_defs"
| "col_defs_loop col_defs (r # rs) = col_defs_loop (col_defs @ [col_def_line r]) rs"

definition fk_line :: string where
  "fk_line = ''    FOREIGN KEY (ssh_key_id) REFERENCES ssh_keys(id) ON DELETE SET NULL''"

definition newline :: string where
  "newline = [CHR 0x0A]"

text \<open>\<^verbatim>\<open>col_defs\<close> after line 56, and \<^verbatim>\<open>new_ddl\<close> of line 58.\<close>

definition col_defs :: "col_row list \<Rightarrow> string list" where
  "col_defs col_rows = col_defs_loop [] col_rows @ [fk_line]"

definition new_ddl :: "col_row list \<Rightarrow> string" where
  "new_ddl col_rows =
     ''CREATE TABLE ssh_connections_new ('' @ newline
       @ join ('','' @ newline) (col_defs col_rows) @ newline @ '')''"

text \<open>
  The column clause as the specification words it (\<^emph>\<open>name type, then NOT NULL if set,
  then DEFAULT if present, then PRIMARY KEY if the column is the primary key\<close>), with the
  code's indentation and separator. It is compared with \<open>col_def_line\<close> below.
\<close>

definition spec_col_def_line :: "col_row \<Rightarrow> string" where
  "spec_col_def_line r =
     join '' ''
       ([''    '' @ col_name r, col_type r]
        @ (if col_notnull r then [''NOT NULL''] else [])
        @ (case col_dflt_value r of None \<Rightarrow> [] | Some d \<Rightarrow> [''DEFAULT '' @ d])
        @ (if col_pk r \<noteq> 0 then [''PRIMARY KEY''] else []))"

subsection \<open>Statements sent through the connection\<close>

text \<open>
  The six statements of the rebuild, as syntax. \<open>CreateTable\<close> carries the column
  clauses and foreign-key clauses of its text in structured form; \<open>sql_text\<close> gives
  the text back, and \<open>sql_text_rebuild_stmts\<close> below shows that the statements of the
  model are, as text, the ones the Python passes to \<^verbatim>\<open>connection.execute\<close>.
\<close>

datatype fk_action = NO_ACTION | RESTRICT | SET_NULL | SET_DEFAULT | CASCADE

fun action_text :: "fk_action \<Rightarrow> string" where
  "action_text NO_ACTION = ''NO ACTION''"
| "action_text RESTRICT = ''RESTRICT''"
| "action_text SET_NULL = ''SET NULL''"
| "action_text SET_DEFAULT = ''SET DEFAULT''"
| "action_text CASCADE = ''CASCADE''"

record col_def =
  cd_name :: string
  cd_type :: string
  cd_not_null :: bool
  cd_default :: "string option"
  cd_primary_key :: bool

record fk_clause =
  fkc_from :: string
  fkc_table :: string
  fkc_to :: string
  fkc_on_delete :: fk_action

datatype stmt =
    DropTableIfExists string
  | CreateTable string "col_def list" "fk_clause list"
  | InsertSelect string "string list" string
  | DropTable string
  | RenameTable string string
  | CreateIndexIfNotExists string string "string list"

definition col_def_text :: "col_def \<Rightarrow> string" where
  "col_def_text d =
     join '' ''
       ([''    '' @ cd_name d, cd_type d]
        @ (if cd_not_null d then [''NOT NULL''] else [])
        @ (case cd_default d of None \<Rightarrow> [] | Some e \<Rightarrow> [''DEFAULT '' @ e])
        @ (if cd_primary_key d then [''PRIMARY KEY''] else []))"

definition fk_clause_text :: "fk_clause \<Rightarrow> string" where
  "fk_clause_text k =
     ''    FOREIGN KEY ('' @ fkc_from k @ '') REFERENCES '' @ fkc_table k
       @ ''('' @ fkc_to k @ '') ON DELETE '' @ action_text (fkc_on_delete k)"

text \<open>The index statement is a triple-quoted literal in the source; its text is given
  here with the line breaks and indentation of the literal replaced by single spaces.\<close>

fun sql_text :: "stmt \<Rightarrow> string" where
  "sql_text (DropTableIfExists n) = ''DROP TABLE IF EXISTS '' @ n"
| "sql_text (CreateTable n defs fks) =
     ''CREATE TABLE '' @ n @ '' ('' @ newline
       @ join ('','' @ newline) (map col_def_text defs @ map fk_clause_text fks)
       @ newline @ '')''"
| "sql_text (InsertSelect dst cols src) =
     ''INSERT INTO '' @ dst @ '' ('' @ join '', '' cols @ '')''
       @ '' SELECT '' @ join '', '' cols @ '' FROM '' @ src"
| "sql_text (DropTable n) = ''DROP TABLE '' @ n"
| "sql_text (RenameTable a b) = ''ALTER TABLE '' @ a @ '' RENAME TO '' @ b"
| "sql_text (CreateIndexIfNotExists ix tbl cols) =
     ''CREATE INDEX IF NOT EXISTS '' @ ix @ '' ON '' @ tbl @ ''('' @ join '', '' cols @ '')''"

text \<open>
  The column clause of one \<^verbatim>\<open>table_info\<close> row, branch by branch as in the loop
  body: for a primary-key column the clause is \<^verbatim>\<open>name type PRIMARY KEY\<close> and
  nothing else.
\<close>

definition col_def_of :: "col_row \<Rightarrow> col_def" where
  "col_def_of r =
     (if col_pk r \<noteq> 0
      then \<lparr>cd_name = col_name r, cd_type = col_type r, cd_not_null = False,
            cd_default = None, cd_primary_key = True\<rparr>
      else \<lparr>cd_name = col_name r, cd_type = col_type r, cd_not_null = col_notnull r,
            cd_default = col_dflt_value r, cd_primary_key = False\<rparr>)"

text \<open>The one foreign-key clause the code appends (lines 54--56): a constant.\<close>

definition ssh_key_fk :: fk_clause where
  "ssh_key_fk = \<lparr>fkc_from = ''ssh_key_id'', fkc_table = ''ssh_keys'', fkc_to = ''id'',
                  fkc_on_delete = SET_NULL\<rparr>"

text \<open>The statements of lines 61--79, in order, for the rows \<^verbatim>\<open>col_rows\<close>.\<close>

definition rebuild_stmts :: "col_row list \<Rightarrow> stmt list" where
  "rebuild_stmts col_rows =
     [DropTableIfExists ''ssh_connections_new'',
      CreateTable ''ssh_connections_new'' (map col_def_of col_rows) [ssh_key_fk],
      InsertSelect ''ssh_connections_new'' (map col_name col_rows) ''ssh_connections'',
      DropTable ''ssh_connections'',
      RenameTable ''ssh_connections_new'' ''ssh_connections'',
      CreateIndexIfNotExists ''ix_ssh_connections_ssh_key_id'' ''ssh_connections''
        [''ssh_key_id'']]"

subsection \<open>The connection, and the control flow of upgrade and downgrade\<close>

text \<open>
  An engine answers the two catalog queries and executes a statement on a database
  state \<open>'db\<close>; each may raise an exception \<open>'e\<close> (\<open>Inl\<close>), as
  \<^verbatim>\<open>connection.execute\<close> may. \<open>'e\<close> stands for the instances of Python's
  \<^verbatim>\<open>Exception\<close>, which is what the \<^verbatim>\<open>except\<close> clause catches.
\<close>

record ('db, 'e) engine =
  pragma_foreign_key_list :: "'db \<Rightarrow> string \<Rightarrow> 'e + fk_row list"
  pragma_table_info :: "'db \<Rightarrow> string \<Rightarrow> 'e + col_row list"
  execute :: "'db \<Rightarrow> stmt \<Rightarrow> 'e + 'db"

text \<open>
  What a call that returns has done: which of the three messages it printed
  (\<open>Skipped\<close>: line 29, \<open>Fixed\<close>: lines 81--82, \<open>Failed e\<close>: lines 85--86 with
  the caught exception), the statements that were executed successfully, in order, and
  the state the database is left in.
\<close>

datatype 'e outcome = Skipped | Fixed | Failed 'e

record ('db, 'e) run_result =
  outcome :: "'e outcome"
  executed :: "stmt list"
  final_db :: "'db"

text \<open>
  The statements of the \<^verbatim>\<open>try\<close> block one after the other. The first that
  raises ends the block: the handler prints and returns, and the database stays as the
  statements before it left it.
\<close>

fun run_stmts :: "('db, 'e) engine \<Rightarrow> 'db \<Rightarrow> stmt list \<Rightarrow> stmt list \<Rightarrow> ('db, 'e) run_result" where
  "run_stmts eng db done_stmts [] =
     \<lparr>outcome = Fixed, executed = done_stmts, final_db = db\<rparr>"
| "run_stmts eng db done_stmts (s # ss) =
     (case execute eng db s of
        Inl e \<Rightarrow> \<lparr>outcome = Failed e, executed = done_stmts, final_db = db\<rparr>
      | Inr db' \<Rightarrow> run_stmts eng db' (done_stmts @ [s]) ss)"

text \<open>Line 26: \<^verbatim>\<open>any(row[6] == "CASCADE" for row in fk_rows)\<close>.\<close>

definition has_cascade :: "fk_row list \<Rightarrow> bool" where
  "has_cascade fk_rows = list_ex (\<lambda>row. fk_on_delete row = ''CASCADE'') fk_rows"

text \<open>
  \<^verbatim>\<open>upgrade(connection)\<close>. The first query stands outside the \<^verbatim>\<open>try\<close>
  block, so an exception it raises leaves the function (\<open>Inl\<close>); the second query and
  the statements stand inside it.
\<close>

definition upgrade_with :: "('db, 'e) engine \<Rightarrow> 'db \<Rightarrow> 'e + ('db, 'e) run_result" where
  "upgrade_with eng db =
     (case pragma_foreign_key_list eng db ''ssh_connections'' of
        Inl e \<Rightarrow> Inl e
      | Inr fk_rows \<Rightarrow>
          if \<not> has_cascade fk_rows
          then Inr \<lparr>outcome = Skipped, executed = [], final_db = db\<rparr>
          else
            (case pragma_table_info eng db ''ssh_connections'' of
               Inl e \<Rightarrow> Inr \<lparr>outcome = Failed e, executed = [], final_db = db\<rparr>
             | Inr col_rows \<Rightarrow> Inr (run_stmts eng db [] (rebuild_stmts col_rows))))"

text \<open>\<^verbatim>\<open>downgrade(connection)\<close>: one \<^verbatim>\<open>print\<close>; the connection is not
  used.\<close>

definition downgrade_with :: "('db, 'e) engine \<Rightarrow> 'db \<Rightarrow> 'e + ('db, 'e) run_result" where
  "downgrade_with eng db = Inr \<lparr>outcome = Skipped, executed = [], final_db = db\<rparr>"

text \<open>Replaying a list of statements from a state; \<open>Inl\<close> at the first that raises.\<close>

fun replay :: "('db, 'e) engine \<Rightarrow> 'db \<Rightarrow> stmt list \<Rightarrow> 'e + 'db" where
  "replay eng db [] = Inr db"
| "replay eng db (s # ss) =
     (case execute eng db s of Inl e \<Rightarrow> Inl e | Inr db' \<Rightarrow> replay eng db' ss)"

subsection \<open>The reference engine\<close>

text \<open>
  SQLite is not part of the repository. What follows is a model of the part of it that
  the eight calls of \<^verbatim>\<open>upgrade\<close> touch: a catalog of tables (columns as
  \<^verbatim>\<open>table_info\<close> reports them, foreign keys as \<^verbatim>\<open>foreign_key_list\<close>
  reports them, and the rows) and of indexes, without views or triggers and with
  foreign-key enforcement off (SQLite's default). Names are compared as written.

  The source puts column names, declared types and default texts into the statement
  text unquoted, and the engine parses that text again. The model does not contain
  SQLite's parser. It interprets a statement only when every interpolated text is
  \<^emph>\<open>plain\<close> (an identifier that is not a keyword, a type name with an optional
  length, a number or a simple string literal): for such text the parse gives back the
  name, type and default it was built from. For any other text the model answers
  \<open>NotInterpreted\<close>, which says nothing about what SQLite does with it; every theorem
  below that speaks about the result of such a statement has the plain columns as a
  hypothesis.
\<close>

datatype sql_value = SqlNull | SqlInt int | SqlReal string | SqlText string | SqlBlob string

record sql_table =
  t_columns :: "col_row list"
  t_foreign_keys :: "fk_row list"
  t_rows :: "sql_value list list"

record database =
  db_tables :: "(string \<times> sql_table) list"
  db_indexes :: "(string \<times> string \<times> string list) list"

datatype sql_error =
    TableAlreadyExists string
  | IndexAlreadyExists string
  | NoSuchTable string
  | NoSuchColumn string
  | DuplicateColumn string
  | MultiplePrimaryKeys string
  | NotInterpreted string
  | NotNullConstraint
  | DatatypeMismatch
  | UniqueConstraint

definition find_table :: "database \<Rightarrow> string \<Rightarrow> sql_table option" where
  "find_table db n = map_of (db_tables db) n"

text \<open>Both PRAGMAs answer with no rows, and no error, for a table that does not exist.\<close>

definition table_foreign_keys :: "database \<Rightarrow> string \<Rightarrow> fk_row list" where
  "table_foreign_keys db n = (case find_table db n of None \<Rightarrow> [] | Some t \<Rightarrow> t_foreign_keys t)"

definition table_columns :: "database \<Rightarrow> string \<Rightarrow> col_row list" where
  "table_columns db n = (case find_table db n of None \<Rightarrow> [] | Some t \<Rightarrow> t_columns t)"

definition sqlite_foreign_key_list :: "database \<Rightarrow> string \<Rightarrow> sql_error + fk_row list" where
  "sqlite_foreign_key_list db n = Inr (table_foreign_keys db n)"

definition sqlite_table_info :: "database \<Rightarrow> string \<Rightarrow> sql_error + col_row list" where
  "sqlite_table_info db n = Inr (table_columns db n)"

paragraph \<open>Plain text\<close>

definition letter_chars :: string where
  "letter_chars = ''abcdefghijklmnopqrstuvwxyzABCDEFGHIJKLMNOPQRSTUVWXYZ''"

definition digit_chars :: string where
  "digit_chars = ''0123456789''"

definition upper_char :: "char \<Rightarrow> char" where
  "upper_char c =
     (case map_of (zip ''abcdefghijklmnopqrstuvwxyz'' ''ABCDEFGHIJKLMNOPQRSTUVWXYZ'') c of
        None \<Rightarrow> c | Some u \<Rightarrow> u)"

definition upper :: "string \<Rightarrow> string" where
  "upper s = map upper_char s"

text \<open>SQLite's keywords, and a few more words with a meaning of their own in its
  grammar. A plain name is none of them, in any case of letters.\<close>

definition sql_keywords :: "string list" where
  "sql_keywords =
     [''ABORT'', ''ACTION'', ''ADD'', ''AFTER'', ''ALL'', ''ALTER'', ''ALWAYS'', ''ANALYZE'',
      ''AND'', ''AS'', ''ASC'', ''ATTACH'', ''AUTOINCREMENT'', ''BEFORE'', ''BEGIN'',
      ''BETWEEN'', ''BY'', ''CASCADE'', ''CASE'', ''CAST'', ''CHECK'', ''COLLATE'', ''COLUMN'',
      ''COMMIT'', ''CONFLICT'', ''CONSTRAINT'', ''CREATE'', ''CROSS'', ''CURRENT'',
      ''CURRENT_DATE'', ''CURRENT_TIME'', ''CURRENT_TIMESTAMP'', ''DATABASE'', ''DEFAULT'',
      ''DEFERRABLE'', ''DEFERRED'', ''DELETE'', ''DESC'', ''DETACH'', ''DISTINCT'', ''DO'',
      ''DROP'', ''EACH'', ''ELSE'', ''END'', ''ESCAPE'', ''EXCEPT'', ''EXCLUDE'', ''EXCLUSIVE'',
      ''EXISTS'', ''EXPLAIN'', ''FAIL'', ''FALSE'', ''FILTER'', ''FIRST'', ''FOLLOWING'', ''FOR'',
      ''FOREIGN'', ''FROM'', ''FULL'', ''GENERATED'', ''GLOB'', ''GROUP'', ''GROUPS'',
      ''HAVING'', ''IF'', ''IGNORE'', ''IMMEDIATE'', ''IN'', ''INDEX'', ''INDEXED'',
      ''INITIALLY'', ''INNER'', ''INSERT'', ''INSTEAD'', ''INTERSECT'', ''INTO'', ''IS'',
      ''ISNULL'', ''JOIN'', ''KEY'', ''LAST'', ''LEFT'', ''LIKE'', ''LIMIT'', ''MATCH'',
      ''MATERIALIZED'', ''NATURAL'', ''NO'', ''NOT'', ''NOTHING'', ''NOTNULL'', ''NULL'',
      ''NULLS'', ''OF'', ''OFFSET'', ''OID'', ''ON'', ''OR'', ''ORDER'', ''OTHERS'', ''OUTER'',
      ''OVER'', ''PARTITION'', ''PLAN'', ''PRAGMA'', ''PRECEDING'', ''PRIMARY'', ''QUERY'',
      ''RAISE'', ''RANGE'', ''RECURSIVE'', ''REFERENCES'', ''REGEXP'', ''REINDEX'', ''RELEASE'',
      ''RENAME'', ''REPLACE'', ''RESTRICT'', ''RETURNING'', ''RIGHT'', ''ROLLBACK'', ''ROW'',
      ''ROWID'', ''ROWS'', ''SAVEPOINT'', ''SELECT'', ''SET'', ''STORED'', ''STRICT'', ''TABLE'',
      ''TEMP'', ''TEMPORARY'', ''THEN'', ''TIES'', ''TO'', ''TRANSACTION'', ''TRIGGER'',
      ''TRUE'', ''UNBOUNDED'', ''UNION'', ''UNIQUE'', ''UPDATE'', ''USING'', ''VACUUM'',
      ''VALUES'', ''VIEW'', ''VIRTUAL'', ''WHEN'', ''WHERE'', ''WINDOW'', ''WITH'', ''WITHIN'',
      ''WITHOUT'', ''_ROWID_'']"

definition plain_name :: "string \<Rightarrow> bool" where
  "plain_name n \<longleftrightarrow>
     n \<noteq> []
     \<and> list_all (\<lambda>c. c \<in> set letter_chars \<or> c \<in> set digit_chars \<or> c = CHR ''_'') n
     \<and> hd n \<notin> set digit_chars
     \<and> upper n \<notin> set sql_keywords"

text \<open>A plain type is a plain name, or a plain name with a length in parentheses
  directly after it (\<^verbatim>\<open>INTEGER\<close>, \<^verbatim>\<open>VARCHAR(255)\<close>).\<close>

definition plain_type :: "string \<Rightarrow> bool" where
  "plain_type ty \<longleftrightarrow>
     (let w = takeWhile (\<lambda>c. c \<noteq> CHR ''('') ty;
          p = dropWhile (\<lambda>c. c \<noteq> CHR ''('') ty
      in plain_name w
         \<and> (p = []
            \<or> (3 \<le> length p \<and> last p = CHR '')''
               \<and> list_all (\<lambda>c. c \<in> set digit_chars) (butlast (tl p)))))"

text \<open>A plain default is an unsigned integer, \<^verbatim>\<open>CURRENT_TIMESTAMP\<close>, or a string
  literal in single quotes made of letters, digits, spaces and underscores.\<close>

definition plain_default :: "string \<Rightarrow> bool" where
  "plain_default d \<longleftrightarrow>
     (d \<noteq> [] \<and> list_all (\<lambda>c. c \<in> set digit_chars) d)
     \<or> d = ''CURRENT_TIMESTAMP''
     \<or> (2 \<le> length d \<and> hd d = CHR 0x27 \<and> last d = CHR 0x27
        \<and> list_all (\<lambda>c. c \<in> set letter_chars \<or> c \<in> set digit_chars \<or> c = CHR '' ''
                         \<or> c = CHR ''_'') (butlast (tl d)))"

definition plain_col_def :: "col_def \<Rightarrow> bool" where
  "plain_col_def d \<longleftrightarrow>
     plain_name (cd_name d) \<and> plain_type (cd_type d)
     \<and> (case cd_default d of None \<Rightarrow> True | Some e \<Rightarrow> plain_default e)"

definition plain_fk_clause :: "fk_clause \<Rightarrow> bool" where
  "plain_fk_clause k \<longleftrightarrow>
     plain_name (fkc_from k) \<and> plain_name (fkc_table k) \<and> plain_name (fkc_to k)"

paragraph \<open>Statements\<close>

text \<open>Dropping a table removes it and the indexes on it.\<close>

definition drop_table :: "database \<Rightarrow> string \<Rightarrow> database" where
  "drop_table db n =
     \<lparr>db_tables = filter (\<lambda>(m, t). m \<noteq> n) (db_tables db),
      db_indexes = filter (\<lambda>(i, m, cs). m \<noteq> n) (db_indexes db)\<rparr>"

text \<open>
  The catalog entry of a created table: columns numbered from 0, \<^verbatim>\<open>pk\<close> 1 for
  the column declared PRIMARY KEY, foreign keys numbered from 0 with the actions as
  \<^verbatim>\<open>foreign_key_list\<close> spells them, and no rows.
\<close>

definition new_column :: "nat \<times> col_def \<Rightarrow> col_row" where
  "new_column p =
     \<lparr>col_cid = fst p, col_name = cd_name (snd p), col_type = cd_type (snd p),
      col_notnull = cd_not_null (snd p), col_dflt_value = cd_default (snd p),
      col_pk = (if cd_primary_key (snd p) then 1 else 0)\<rparr>"

definition new_foreign_key :: "nat \<times> fk_clause \<Rightarrow> fk_row" where
  "new_foreign_key p =
     \<lparr>fk_id = fst p, fk_seq = 0, fk_table = fkc_table (snd p), fk_from = fkc_from (snd p),
      fk_to = fkc_to (snd p), fk_on_update = ''NO ACTION'',
      fk_on_delete = action_text (fkc_on_delete (snd p)), fk_match = ''NONE''\<rparr>"

definition new_table :: "col_def list \<Rightarrow> fk_clause list \<Rightarrow> sql_table" where
  "new_table defs fks =
     \<lparr>t_columns = map new_column (enumerate 0 defs),
      t_foreign_keys = map new_foreign_key (enumerate 0 fks),
      t_rows = []\<rparr>"

text \<open>Tables and indexes share their names: a table cannot take the name of an index.\<close>

definition create_table :: "database \<Rightarrow> string \<Rightarrow> col_def list \<Rightarrow> fk_clause list \<Rightarrow> sql_error + database" where
  "create_table db n defs fks =
     (if find_table db n \<noteq> None then Inl (TableAlreadyExists n)
      else if n \<in> set (map fst (db_indexes db)) then Inl (IndexAlreadyExists n)
      else if \<not> (list_all plain_col_def defs \<and> list_all plain_fk_clause fks)
      then Inl (NotInterpreted n)
      else if \<not> distinct (map cd_name defs) then Inl (DuplicateColumn n)
      else if 1 < length (filter cd_primary_key defs) then Inl (MultiplePrimaryKeys n)
      else
        (case find (\<lambda>k. fkc_from k \<notin> set (map cd_name defs)) fks of
           Some k \<Rightarrow> Inl (NoSuchColumn (fkc_from k))
         | None \<Rightarrow> Inr (db\<lparr>db_tables := db_tables db @ [(n, new_table defs fks)]\<rparr>)))"

text \<open>
  \<^verbatim>\<open>INSERT INTO dst (cols) SELECT cols FROM src\<close> with the same list on both
  sides: each source row gives one row for \<open>dst\<close>, a listed column taking the value
  the source row has under that name. (A column of \<open>dst\<close> that is not listed is
  given NULL here; \<^verbatim>\<open>upgrade\<close> lists them all.)
\<close>

definition field_of :: "sql_table \<Rightarrow> sql_value list \<Rightarrow> string \<Rightarrow> sql_value" where
  "field_of t row c =
     (case map_of (zip (map col_name (t_columns t)) row) c of None \<Rightarrow> SqlNull | Some v \<Rightarrow> v)"

definition copied_row :: "sql_table \<Rightarrow> string list \<Rightarrow> sql_table \<Rightarrow> sql_value list \<Rightarrow> sql_value list" where
  "copied_row dst cols src row =
     map (\<lambda>c. if col_name c \<in> set cols then field_of src row (col_name c) else SqlNull)
       (t_columns dst)"

text \<open>
  Storing a row. A column declared \<^verbatim>\<open>INTEGER PRIMARY KEY\<close> is the row id: a NULL
  given for it is replaced by the largest row id of the table plus one (1 in an empty
  table), and a value that is not an integer is refused. A NULL in a NOT NULL column
  is refused, and so is a primary key that a stored row already has.
\<close>

definition is_rowid_alias :: "col_row \<Rightarrow> bool" where
  "is_rowid_alias c \<longleftrightarrow> col_pk c \<noteq> 0 \<and> upper (col_type c) = ''INTEGER''"

definition rowid_of :: "sql_table \<Rightarrow> sql_value list \<Rightarrow> int list" where
  "rowid_of t row =
     concat (map (\<lambda>(c, v). case v of SqlInt k \<Rightarrow> if is_rowid_alias c then [k] else [] | _ \<Rightarrow> [])
               (zip (t_columns t) row))"

definition next_rowid :: "int list \<Rightarrow> int" where
  "next_rowid ks = (case ks of [] \<Rightarrow> 1 | k # ks' \<Rightarrow> fold max ks' k + 1)"

definition with_rowid :: "sql_table \<Rightarrow> int \<Rightarrow> sql_value list \<Rightarrow> sql_value list" where
  "with_rowid t k row =
     map (\<lambda>(c, v). if is_rowid_alias c \<and> v = SqlNull then SqlInt k else v)
       (zip (t_columns t) row)"

definition rowid_mismatch :: "sql_table \<Rightarrow> sql_value list \<Rightarrow> bool" where
  "rowid_mismatch t row =
     list_ex (\<lambda>(c, v). is_rowid_alias c
                \<and> (case v of SqlNull \<Rightarrow> False | SqlInt k \<Rightarrow> False | _ \<Rightarrow> True))
       (zip (t_columns t) row)"

definition null_in_not_null :: "sql_table \<Rightarrow> sql_value list \<Rightarrow> bool" where
  "null_in_not_null t row =
     list_ex (\<lambda>(c, v). col_notnull c \<and> v = SqlNull) (zip (t_columns t) row)"

definition key_of :: "sql_table \<Rightarrow> sql_value list \<Rightarrow> sql_value list" where
  "key_of t row = map snd (filter (\<lambda>(c, v). col_pk c \<noteq> 0) (zip (t_columns t) row))"

definition key_taken :: "sql_table \<Rightarrow> sql_value list list \<Rightarrow> sql_value list \<Rightarrow> bool" where
  "key_taken t rows row \<longleftrightarrow>
     key_of t row \<noteq> [] \<and> SqlNull \<notin> set (key_of t row)
     \<and> key_of t row \<in> set (map (key_of t) rows)"

definition store_row :: "sql_table \<Rightarrow> sql_value list list \<Rightarrow> sql_value list \<Rightarrow> sql_error + sql_value list list" where
  "store_row t rows row =
     (let stored = with_rowid t (next_rowid (concat (map (rowid_of t) rows))) row in
      if rowid_mismatch t row then Inl DatatypeMismatch
      else if null_in_not_null t stored then Inl NotNullConstraint
      else if key_taken t rows stored then Inl UniqueConstraint
      else Inr (rows @ [stored]))"

fun store_rows :: "sql_table \<Rightarrow> sql_value list list \<Rightarrow> sql_value list list \<Rightarrow> sql_error + sql_value list list" where
  "store_rows t rows [] = Inr rows"
| "store_rows t rows (r # rs) =
     (case store_row t rows r of Inl e \<Rightarrow> Inl e | Inr rows' \<Rightarrow> store_rows t rows' rs)"

definition set_rows :: "database \<Rightarrow> string \<Rightarrow> sql_value list list \<Rightarrow> database" where
  "set_rows db n rows =
     db\<lparr>db_tables :=
          map (\<lambda>(m, t). if m = n then (m, t\<lparr>t_rows := rows\<rparr>) else (m, t)) (db_tables db)\<rparr>"

text \<open>A statement that fails stores none of its rows.\<close>

definition insert_select :: "database \<Rightarrow> string \<Rightarrow> string list \<Rightarrow> string \<Rightarrow> sql_error + database" where
  "insert_select db dst cols src =
     (if \<not> list_all plain_name cols then Inl (NotInterpreted dst)
      else
        (case find_table db dst of
           None \<Rightarrow> Inl (NoSuchTable dst)
         | Some td \<Rightarrow>
             (case find_table db src of
                None \<Rightarrow> Inl (NoSuchTable src)
              | Some ts \<Rightarrow>
                  (case find (\<lambda>c. c \<notin> set (map col_name (t_columns td))
                                   \<or> c \<notin> set (map col_name (t_columns ts))) cols of
                     Some c \<Rightarrow> Inl (NoSuchColumn c)
                   | None \<Rightarrow>
                       (case store_rows td (t_rows td)
                               (map (copied_row td cols ts) (t_rows ts)) of
                          Inl e \<Rightarrow> Inl e
                        | Inr rows \<Rightarrow> Inr (set_rows db dst rows))))))"

definition rename_table :: "database \<Rightarrow> string \<Rightarrow> string \<Rightarrow> sql_error + database" where
  "rename_table db a b =
     (if find_table db a = None then Inl (NoSuchTable a)
      else if find_table db b \<noteq> None then Inl (TableAlreadyExists b)
      else if b \<in> set (map fst (db_indexes db)) then Inl (IndexAlreadyExists b)
      else Inr \<lparr>db_tables = map (\<lambda>(m, t). (if m = a then b else m, t)) (db_tables db),
                db_indexes = map (\<lambda>(i, m, cs). (i, if m = a then b else m, cs)) (db_indexes db)\<rparr>)"

text \<open>An index cannot take the name of a table; with \<^verbatim>\<open>IF NOT EXISTS\<close> an index of
  that name makes the statement do nothing.\<close>

definition create_index :: "database \<Rightarrow> string \<Rightarrow> string \<Rightarrow> string list \<Rightarrow> sql_error + database" where
  "create_index db ix tbl cols =
     (case find_table db tbl of
        None \<Rightarrow> Inl (NoSuchTable tbl)
      | Some t \<Rightarrow>
          if find_table db ix \<noteq> None then Inl (TableAlreadyExists ix)
          else if ix \<in> set (map fst (db_indexes db)) then Inr db
          else
            (case find (\<lambda>c. c \<notin> set (map col_name (t_columns t))) cols of
               Some c \<Rightarrow> Inl (NoSuchColumn c)
             | None \<Rightarrow> Inr (db\<lparr>db_indexes := db_indexes db @ [(ix, tbl, cols)]\<rparr>)))"

fun sqlite_execute :: "database \<Rightarrow> stmt \<Rightarrow> sql_error + database" where
  "sqlite_execute db (DropTableIfExists n) = Inr (drop_table db n)"
| "sqlite_execute db (CreateTable n defs fks) = create_table db n defs fks"
| "sqlite_execute db (InsertSelect dst cols src) = insert_select db dst cols src"
| "sqlite_execute db (DropTable n) =
     (if find_table db n = None then Inl (NoSuchTable n) else Inr (drop_table db n))"
| "sqlite_execute db (RenameTable a b) = rename_table db a b"
| "sqlite_execute db (CreateIndexIfNotExists ix tbl cols) = create_index db ix tbl cols"

definition sqlite :: "(database, sql_error) engine" where
  "sqlite = \<lparr>pragma_foreign_key_list = sqlite_foreign_key_list,
             pragma_table_info = sqlite_table_info,
             execute = sqlite_execute\<rparr>"

text \<open>The two functions of the module, on the reference engine.\<close>

definition upgrade :: "database \<Rightarrow> sql_error + (database, sql_error) run_result" where
  "upgrade db = upgrade_with sqlite db"

definition downgrade :: "database \<Rightarrow> sql_error + (database, sql_error) run_result" where
  "downgrade db = downgrade_with sqlite db"

subsection \<open>The states of a rebuild on the reference engine\<close>

text \<open>
  Names for the proofs below: the scratch table that the synthesized statement creates
  from the columns \<open>cols\<close>, the database once it is created (the stale scratch table
  dropped first), and the rows the copy offers to it from the table \<open>t\<close>.
\<close>

definition scratch_table :: "col_row list \<Rightarrow> sql_table" where
  "scratch_table cols = new_table (map col_def_of cols) [ssh_key_fk]"

definition with_scratch :: "database \<Rightarrow> col_row list \<Rightarrow> database" where
  "with_scratch db cols =
     (drop_table db ''ssh_connections_new'')
       \<lparr>db_tables := db_tables (drop_table db ''ssh_connections_new'')
                       @ [(''ssh_connections_new'', scratch_table cols)]\<rparr>"

definition copied_rows :: "sql_table \<Rightarrow> sql_value list list" where
  "copied_rows t =
     map (copied_row (scratch_table (t_columns t)) (map col_name (t_columns t)) t) (t_rows t)"

subsection \<open>Observations on a database\<close>

text \<open>The foreign keys of \<^verbatim>\<open>ssh_connections\<close>: from-column and delete action of each
  row of \<^verbatim>\<open>PRAGMA foreign_key_list(ssh_connections)\<close>.\<close>

definition on_delete_actions :: "database \<Rightarrow> (string \<times> string) list" where
  "on_delete_actions db =
     map (\<lambda>row. (fk_from row, fk_on_delete row)) (table_foreign_keys db ''ssh_connections'')"

text \<open>The database after a call of \<^verbatim>\<open>upgrade\<close>, whether it returned or raised (it
  can only raise in the guard query, before anything is executed).\<close>

definition upgraded :: "database \<Rightarrow> database" where
  "upgraded db = (case upgrade db of Inl e \<Rightarrow> db | Inr r \<Rightarrow> final_db r)"


text \<open>The columns of a table are plain when the column clauses built from them are:
  name and type of every column, and the default of every column outside the primary
  key (the default of a primary-key column is not put into the statement).\<close>

definition plain_columns :: "col_row list \<Rightarrow> bool" where
  "plain_columns cols \<longleftrightarrow> list_all plain_col_def (map col_def_of cols)"


text \<open>The three names the rebuild uses are not taken by an index or a table of another
  kind: no index is called like one of the two tables, no table like the index.\<close>

definition names_free :: "database \<Rightarrow> bool" where
  "names_free db \<longleftrightarrow>
     ''ssh_connections_new'' \<notin> set (map fst (db_indexes db))
     \<and> ''ssh_connections'' \<notin> set (map fst (db_indexes db))
     \<and> find_table db ''ix_ssh_connections_ssh_key_id'' = None"

subsection \<open>Example databases\<close>

text \<open>
  The scenario of the specification's section 8 (and of the repository's test
  \<^verbatim>\<open>test_fixes_cascade_to_set_null\<close>, with fewer columns): a table
  \<^verbatim>\<open>ssh_connections (id INTEGER PRIMARY KEY, ssh_key_id INTEGER, host TEXT NOT NULL,
  created_at TIMESTAMP DEFAULT CURRENT_TIMESTAMP)\<close> with one row and one foreign key on
  \<^verbatim>\<open>ssh_key_id\<close>, whose delete action is the parameter.
\<close>

definition col :: "nat \<Rightarrow> string \<Rightarrow> string \<Rightarrow> bool \<Rightarrow> string option \<Rightarrow> nat \<Rightarrow> col_row" where
  "col i n ty nn d p =
     \<lparr>col_cid = i, col_name = n, col_type = ty, col_notnull = nn, col_dflt_value = d,
      col_pk = p\<rparr>"

definition fk :: "nat \<Rightarrow> string \<Rightarrow> string \<Rightarrow> string \<Rightarrow> string \<Rightarrow> fk_row" where
  "fk i tbl frm to act =
     \<lparr>fk_id = i, fk_seq = 0, fk_table = tbl, fk_from = frm, fk_to = to,
      fk_on_update = ''NO ACTION'', fk_on_delete = act, fk_match = ''NONE''\<rparr>"

definition ssh_keys_table :: sql_table where
  "ssh_keys_table =
     \<lparr>t_columns = [col 0 ''id'' ''INTEGER'' False None 1, col 1 ''name'' ''TEXT'' False None 0],
      t_foreign_keys = [],
      t_rows = [[SqlInt 5, SqlText ''k'']]\<rparr>"

definition example_columns :: "col_row list" where
  "example_columns =
     [col 0 ''id'' ''INTEGER'' False None 1,
      col 1 ''ssh_key_id'' ''INTEGER'' False None 0,
      col 2 ''host'' ''TEXT'' True None 0,
      col 3 ''created_at'' ''TIMESTAMP'' False (Some ''CURRENT_TIMESTAMP'') 0]"

definition example_rows :: "sql_value list list" where
  "example_rows = [[SqlInt 1, SqlInt 5, SqlText ''h1'', SqlText ''2024-01-01'']]"

definition example_db :: "string \<Rightarrow> database" where
  "example_db act =
     \<lparr>db_tables =
        [(''ssh_keys'', ssh_keys_table),
         (''ssh_connections'',
          \<lparr>t_columns = example_columns,
           t_foreign_keys = [fk 0 ''ssh_keys'' ''ssh_key_id'' ''id'' act],
           t_rows = example_rows\<rparr>)],
      db_indexes = []\<rparr>"



text \<open>A table with a two-column primary key.\<close>

definition composite_pk_db :: database where
  "composite_pk_db =
     \<lparr>db_tables =
        [(''ssh_connections'',
          \<lparr>t_columns =
             [col 0 ''host'' ''TEXT'' False None 1,
              col 1 ''ssh_key_id'' ''INTEGER'' False None 2],
           t_foreign_keys = [fk 0 ''ssh_keys'' ''ssh_key_id'' ''id'' ''CASCADE''],
           t_rows = [[SqlText ''h1'', SqlInt 5]]\<rparr>)],
      db_indexes = []\<rparr>"

text \<open>The example with a scratch table left behind by an interrupted run.\<close>

definition stale_scratch_db :: database where
  "stale_scratch_db =
     \<lparr>db_tables =
        [(''ssh_connections_new'',
          \<lparr>t_columns = [col 0 ''id'' ''INTEGER'' False None 1], t_foreign_keys = [],
           t_rows = []\<rparr>),
         (''ssh_connections'',
          \<lparr>t_columns = example_columns,
           t_foreign_keys = [fk 0 ''ssh_keys'' ''ssh_key_id'' ''id'' ''CASCADE''],
           t_rows = example_rows\<rparr>)],
      db_indexes = []\<rparr>"

definition empty_db :: database where
  "empty_db = \<lparr>db_tables = [], db_indexes = []\<rparr>"

text \<open>
  The example after an interrupted run: the first four statements of the rebuild have
  been executed (the original table is dropped, the scratch table holds the rows), the
  rename has not.
\<close>

definition interrupted_db :: database where
  "interrupted_db =
     \<lparr>db_tables =
        [(''ssh_keys'', ssh_keys_table),
         (''ssh_connections_new'',
          \<lparr>t_columns = example_columns,
           t_foreign_keys = [fk 0 ''ssh_keys'' ''ssh_key_id'' ''id'' ''SET NULL''],
           t_rows = example_rows\<rparr>)],
      db_indexes = []\<rparr>"

text \<open>
  A column whose declared type, as \<^verbatim>\<open>table_info\<close> reports it, is the text
  \<^verbatim>\<open>INTEGER REFERENCES users(id) ON DELETE CASCADE\<close> (a table can be created so, with
  the type name in quotes).
\<close>

definition references_in_type :: col_row where
  "references_in_type =
     col 2 ''owner_id'' ''INTEGER REFERENCES users(id) ON DELETE CASCADE'' False None 0"

section \<open>Properties\<close>

subsection \<open>DDL synthesis\<close>

lemma col_defs_loop_map: "col_defs_loop acc rs = acc @ map col_def_line rs"
  by (induction rs arbitrary: acc) simp_all

lemma col_defs_map: "col_defs rs = map col_def_line rs @ [fk_line]"
  by (simp add: col_defs_def col_defs_loop_map)

lemma col_def_text_col_def_of: "col_def_text (col_def_of r) = col_def_line r"
  by (cases "col_dflt_value r") (simp_all add: col_def_text_def col_def_of_def col_def_line_def)

lemma fk_clause_text_ssh_key_fk: "fk_clause_text ssh_key_fk = fk_line"
  by (simp add: fk_clause_text_def ssh_key_fk_def fk_line_def)

lemma sql_text_create: "sql_text (rebuild_stmts col_rows ! 1) = new_ddl col_rows"
  by (simp add: rebuild_stmts_def new_ddl_def col_defs_map col_def_text_col_def_of
      fk_clause_text_ssh_key_fk comp_def)

lemma sql_text_rebuild_stmts:
  "map sql_text (rebuild_stmts col_rows) =
     [''DROP TABLE IF EXISTS ssh_connections_new'',
      new_ddl col_rows,
      ''INSERT INTO ssh_connections_new ('' @ join '', '' (map col_name col_rows) @ '')''
        @ '' SELECT '' @ join '', '' (map col_name col_rows) @ '' FROM ssh_connections'',
      ''DROP TABLE ssh_connections'',
      ''ALTER TABLE ssh_connections_new RENAME TO ssh_connections'',
      ''CREATE INDEX IF NOT EXISTS ix_ssh_connections_ssh_key_id ON ssh_connections(ssh_key_id)'']"
  using sql_text_create [of col_rows] by (simp add: rebuild_stmts_def)

text \<open>
  C5 (as stated, refuted). The claim gives every column the clause
  \<^verbatim>\<open>name type [NOT NULL] [DEFAULT expr] [PRIMARY KEY]\<close>. For the primary-key
  column \<^verbatim>\<open>id INTEGER NOT NULL\<close> the code emits \<^verbatim>\<open>id INTEGER PRIMARY KEY\<close>:
  the NOT NULL of the claim is missing.
\<close>

theorem primary_key_clause_counterexample:
  "col_def_line (col 0 ''id'' ''INTEGER'' True None 1) = ''    id INTEGER PRIMARY KEY''
   \<and> spec_col_def_line (col 0 ''id'' ''INTEGER'' True None 1)
       = ''    id INTEGER NOT NULL PRIMARY KEY''
   \<and> col_def_line (col 0 ''id'' ''INTEGER'' True None 1)
       \<noteq> spec_col_def_line (col 0 ''id'' ''INTEGER'' True None 1)"
  by (simp add: col_def_line_def spec_col_def_line_def col_def)

text \<open>
  C5 (amended). The synthesized CREATE TABLE statement has one line per introspected
  column, in the original column order, followed by the foreign-key line. The line of a
  column outside the primary key is its name and type, then NOT NULL if the column is
  declared not-null, then DEFAULT with its default expression if one is present. The
  line of a primary-key column is its name and type, then PRIMARY KEY, and nothing else.
\<close>

theorem synthesized_column_lines:
  "new_ddl col_rows =
     ''CREATE TABLE ssh_connections_new ('' @ newline
       @ join ('','' @ newline) (col_defs col_rows) @ newline @ '')''
   \<and> length (col_defs col_rows) = length col_rows + 1
   \<and> col_defs col_rows ! length col_rows = fk_line
   \<and> (\<forall>i < length col_rows.
         col_defs col_rows ! i =
           (if col_pk (col_rows ! i) = 0 then spec_col_def_line (col_rows ! i)
            else ''    '' @ col_name (col_rows ! i) @ '' '' @ col_type (col_rows ! i)
                   @ '' PRIMARY KEY''))"
proof -
  have "col_defs col_rows ! i =
          (if col_pk (col_rows ! i) = 0 then spec_col_def_line (col_rows ! i)
           else ''    '' @ col_name (col_rows ! i) @ '' '' @ col_type (col_rows ! i)
                  @ '' PRIMARY KEY'')"
    if "i < length col_rows" for i
    using that by (simp add: col_defs_map nth_append col_def_line_def spec_col_def_line_def)
  then show ?thesis
    by (simp add: new_ddl_def col_defs_map nth_append)
qed

theorem synthesized_column_lines_witness:
  "col_defs example_columns ! 0 = ''    id INTEGER PRIMARY KEY''
   \<and> col_defs example_columns ! 2 = ''    host TEXT NOT NULL''
   \<and> col_defs example_columns ! 3 = ''    created_at TIMESTAMP DEFAULT CURRENT_TIMESTAMP''
   \<and> col_defs example_columns ! 4 = fk_line"
proof -
  note lines = synthesized_column_lines [of example_columns, THEN conjunct2, THEN conjunct2]
  have len: "length example_columns = 4"
    by (simp add: example_columns_def)
  have "col_defs example_columns ! 4 = fk_line"
    using lines [THEN conjunct1] by (simp only: len)
  moreover have "col_defs example_columns ! 0 = ''    id INTEGER PRIMARY KEY''"
    using lines [THEN conjunct2, rule_format, of 0]
    by (simp add: example_columns_def col_def)
  moreover have "col_defs example_columns ! 2 = ''    host TEXT NOT NULL''"
    using lines [THEN conjunct2, rule_format, of 2]
    by (simp add: example_columns_def col_def spec_col_def_line_def)
  moreover have "col_defs example_columns ! 3
      = ''    created_at TIMESTAMP DEFAULT CURRENT_TIMESTAMP''"
    using lines [THEN conjunct2, rule_format, of 3]
    by (simp add: example_columns_def col_def spec_col_def_line_def)
  ultimately show ?thesis by simp
qed

text \<open>
  C10. \<^verbatim>\<open>downgrade(connection)\<close> returns without having executed a statement and
  leaves the database as it was, on every engine and in every state; in particular it
  does not put the CASCADE action back.
\<close>

theorem downgrade_does_nothing:
  "downgrade_with eng db = Inr \<lparr>outcome = Skipped, executed = [], final_db = db\<rparr>
   \<and> downgrade db' = Inr \<lparr>outcome = Skipped, executed = [], final_db = db'\<rparr>"
  by (simp add: downgrade_with_def downgrade_def)

subsection \<open>The try block, on any engine\<close>

lemma run_stmts_trace:
  "\<exists>pre. executed (run_stmts eng db done_stmts ss) = done_stmts @ pre
     \<and> replay eng db pre = Inr (final_db (run_stmts eng db done_stmts ss))
     \<and> (case outcome (run_stmts eng db done_stmts ss) of
          Fixed \<Rightarrow> pre = ss
        | Failed e \<Rightarrow>
            (\<exists>s rest. ss = pre @ s # rest
               \<and> execute eng (final_db (run_stmts eng db done_stmts ss)) s = Inl e)
        | Skipped \<Rightarrow> False)"
proof (induction ss arbitrary: db done_stmts)
  case Nil
  then show ?case by simp
next
  case (Cons s ss)
  show ?case
  proof (cases "execute eng db s")
    case (Inl e)
    then show ?thesis by (intro exI [of _ "[]"]) simp
  next
    case (Inr db')
    from Cons.IH [of db' "done_stmts @ [s]"] obtain pre where
      pre: "executed (run_stmts eng db' (done_stmts @ [s]) ss) = (done_stmts @ [s]) @ pre"
        "replay eng db' pre = Inr (final_db (run_stmts eng db' (done_stmts @ [s]) ss))"
        "(case outcome (run_stmts eng db' (done_stmts @ [s]) ss) of
          Fixed \<Rightarrow> pre = ss
        | Failed e \<Rightarrow>
            (\<exists>s' rest. ss = pre @ s' # rest
               \<and> execute eng (final_db (run_stmts eng db' (done_stmts @ [s]) ss)) s' = Inl e)
        | Skipped \<Rightarrow> False)"
      by blast
    show ?thesis
      using Inr pre by (intro exI [of _ "s # pre"]) (auto split: outcome.splits)
  qed
qed

lemma sqlite_simps:
  "pragma_foreign_key_list sqlite = sqlite_foreign_key_list"
  "pragma_table_info sqlite = sqlite_table_info"
  "execute sqlite = sqlite_execute"
  by (simp_all add: sqlite_def)

subsection \<open>The catalog after each statement\<close>

lemma find_table_drop_table:
  "find_table (drop_table db n) m = (if m = n then None else find_table db m)"
proof -
  have "map_of (filter (\<lambda>(k, t). k \<noteq> n) xs) m = (if m = n then None else map_of xs m)"
    for xs :: "(string \<times> sql_table) list"
    by (induction xs) auto
  then show ?thesis by (simp add: find_table_def drop_table_def)
qed

lemma drop_table_twice: "drop_table (drop_table db n) n = drop_table db n"
  by (simp add: drop_table_def)

lemma find_table_created:
  "find_table (db\<lparr>db_tables := db_tables db @ [(n, t)]\<rparr>) m =
     (case find_table db m of Some x \<Rightarrow> Some x | None \<Rightarrow> if m = n then Some t else None)"
  by (simp add: find_table_def map_add_def split: option.splits)

lemma drop_table_created:
  "drop_table ((drop_table db n)\<lparr>db_tables := db_tables (drop_table db n) @ [(n, t)]\<rparr>) n
     = drop_table db n"
  by (simp add: drop_table_def)

lemma map_of_rename_key:
  fixes xs :: "(string \<times> sql_table) list"
  assumes "b \<notin> fst ` set xs"
  shows "map_of (map (\<lambda>p. (if fst p = a then b else fst p, snd p)) xs) m
        = (if m = b then map_of xs a else if m = a then None else map_of xs m)"
  using assms
proof (induction xs)
  case Nil
  then show ?case by simp
next
  case (Cons p xs)
  then have IH: "map_of (map (\<lambda>p. (if fst p = a then b else fst p, snd p)) xs) m
        = (if m = b then map_of xs a else if m = a then None else map_of xs m)"
    and nb: "fst p \<noteq> b"
    by auto
  obtain k t where p: "p = (k, t)" by (cases p)
  show ?case
  proof (cases "k = a")
    case True
    with IH nb p show ?thesis by (cases "m = b"; cases "m = a") simp_all
  next
    case False
    with IH nb p show ?thesis by (cases "m = b"; cases "m = a") simp_all
  qed
qed

lemma find_table_renamed:
  assumes "find_table db b = None"
  shows "find_table \<lparr>db_tables = map (\<lambda>(k, t). (if k = a then b else k, t)) (db_tables db),
                      db_indexes = ixs\<rparr> m
         = (if m = b then find_table db a else if m = a then None else find_table db m)"
proof -
  have "b \<notin> fst ` set (db_tables db)"
    using assms by (simp add: find_table_def map_of_eq_None_iff)
  from map_of_rename_key [OF this, of a m] show ?thesis
    by (simp add: find_table_def case_prod_unfold)
qed

lemma find_table_index_added [simp]:
  "find_table (db\<lparr>db_indexes := ixs\<rparr>) m = find_table db m"
  by (simp add: find_table_def)

subsection \<open>The synthesized table\<close>

lemma cd_name_col_def_of [simp]: "cd_name (col_def_of r) = col_name r"
  and cd_type_col_def_of [simp]: "cd_type (col_def_of r) = col_type r"
  and cd_primary_key_col_def_of [simp]: "cd_primary_key (col_def_of r) \<longleftrightarrow> col_pk r \<noteq> 0"
  and cd_not_null_col_def_of: "cd_not_null (col_def_of r) \<longleftrightarrow> col_pk r = 0 \<and> col_notnull r"
  and cd_default_col_def_of:
    "cd_default (col_def_of r) = (if col_pk r = 0 then col_dflt_value r else None)"
  by (simp_all add: col_def_of_def)

lemma map_new_column_enumerate:
  "map f (map new_column (enumerate k defs)) = map (\<lambda>p. f (new_column p)) (enumerate k defs)"
  by simp


subsection \<open>Entering the rebuild\<close>

lemma upgrade_skip:
  "\<not> has_cascade (table_foreign_keys db ''ssh_connections'') \<Longrightarrow>
     upgrade db = Inr \<lparr>outcome = Skipped, executed = [], final_db = db\<rparr>"
  by (simp add: upgrade_def upgrade_with_def sqlite_simps sqlite_foreign_key_list_def)

lemma upgrade_rebuild:
  "has_cascade (table_foreign_keys db ''ssh_connections'') \<Longrightarrow>
     upgrade db
       = Inr (run_stmts sqlite db [] (rebuild_stmts (table_columns db ''ssh_connections'')))"
  by (simp add: upgrade_def upgrade_with_def sqlite_simps sqlite_foreign_key_list_def
      sqlite_table_info_def)

lemma has_cascade_table:
  assumes "has_cascade (table_foreign_keys db n)"
  obtains t where "find_table db n = Some t" and "has_cascade (t_foreign_keys t)"
    and "table_columns db n = t_columns t"
  using assms
  by (cases "find_table db n") (simp_all add: table_foreign_keys_def table_columns_def has_cascade_def)

subsection \<open>The guard\<close>

lemma on_delete_has_cascade:
  "has_cascade (table_foreign_keys db ''ssh_connections'')
     \<longleftrightarrow> ''CASCADE'' \<in> snd ` set (on_delete_actions db)"
proof -
  have "list_ex (\<lambda>row. f row = c) xs \<longleftrightarrow> c \<in> snd ` set (map (\<lambda>row. (g row, f row)) xs)"
    for f :: "fk_row \<Rightarrow> string" and g :: "fk_row \<Rightarrow> string" and c xs
    by (induction xs) auto
  then show ?thesis
    by (simp only: has_cascade_def on_delete_actions_def)
qed

lemma run_stmts_executed: "\<exists>pre. executed (run_stmts eng db done_stmts ss) = done_stmts @ pre"
  using run_stmts_trace [of eng db done_stmts ss] by blast

lemma first_statement_runs:
  "take 1 (executed (run_stmts sqlite db [] (rebuild_stmts cols)))
     = [DropTableIfExists ''ssh_connections_new'']"
proof -
  obtain pre where
    "executed (run_stmts sqlite (drop_table db ''ssh_connections_new'')
        [DropTableIfExists ''ssh_connections_new''] (tl (rebuild_stmts cols)))
      = [DropTableIfExists ''ssh_connections_new''] @ pre"
    using run_stmts_executed [of sqlite "drop_table db ''ssh_connections_new''"
        "[DropTableIfExists ''ssh_connections_new'']" "tl (rebuild_stmts cols)"]
    by (elim exE)
  then show ?thesis
    by (simp add: rebuild_stmts_def sqlite_simps)
qed

lemma run_stmts_not_skipped: "outcome (run_stmts eng db done_stmts ss) \<noteq> Skipped"
  using run_stmts_trace [of eng db done_stmts ss] by (auto split: outcome.splits)

text \<open>
  C3 (as stated, refuted). In the example with the delete action NO ACTION the
  foreign key on \<^verbatim>\<open>ssh_key_id\<close> exists and its action is not SET NULL, so the
  claim has \<^verbatim>\<open>upgrade\<close> proceed to the rebuild; the code takes the skip path.
\<close>

theorem skip_with_no_action_counterexample:
  "on_delete_actions (example_db ''NO ACTION'') = [(''ssh_key_id'', ''NO ACTION'')]
   \<and> upgrade (example_db ''NO ACTION'')
       = Inr \<lparr>outcome = Skipped, executed = [], final_db = example_db ''NO ACTION''\<rparr>"
  by code_simp

text \<open>
  C3 (amended). \<^verbatim>\<open>upgrade\<close> takes the skip path (it returns having executed no
  statement, the database unchanged) exactly when no row of
  \<^verbatim>\<open>PRAGMA foreign_key_list(ssh_connections)\<close> has the delete action CASCADE, whatever
  its from-column: also when the table has no foreign key or does not exist. In every
  other case it proceeds to the rebuild, whose first statement is executed.
\<close>

theorem skip_exactly_without_cascade:
  "\<exists>r. upgrade db = Inr r
     \<and> (if ''CASCADE'' \<in> snd ` set (on_delete_actions db)
        then outcome r \<noteq> Skipped
             \<and> take 1 (executed r) = [DropTableIfExists ''ssh_connections_new'']
        else r = \<lparr>outcome = Skipped, executed = [], final_db = db\<rparr>)"
proof (cases "has_cascade (table_foreign_keys db ''ssh_connections'')")
  case True
  with upgrade_rebuild [OF True] show ?thesis
    using first_statement_runs [of db "table_columns db ''ssh_connections''"]
    by (simp add: on_delete_has_cascade [symmetric] run_stmts_not_skipped)
next
  case False
  with upgrade_skip [OF False] show ?thesis
    by (simp add: on_delete_has_cascade [symmetric])
qed

theorem skip_exactly_without_cascade_witness:
  "upgrade (example_db ''SET NULL'')
     = Inr \<lparr>outcome = Skipped, executed = [], final_db = example_db ''SET NULL''\<rparr>
   \<and> (case upgrade composite_pk_db of Inl e \<Rightarrow> False | Inr r \<Rightarrow> outcome r \<noteq> Skipped)"
proof -
  have a: "''CASCADE'' \<notin> snd ` set (on_delete_actions (example_db ''SET NULL''))"
    by code_simp
  have b: "''CASCADE'' \<in> snd ` set (on_delete_actions composite_pk_db)"
    by code_simp
  from skip_exactly_without_cascade [of "example_db ''SET NULL''"] a
    skip_exactly_without_cascade [of composite_pk_db] b
  show ?thesis by auto
qed

subsection \<open>A missing table\<close>

text \<open>
  C7 (as stated, refuted). In a database without the table \<^verbatim>\<open>ssh_connections\<close> the
  call returns (\<open>Inr\<close>, the skip path); no error reaches the caller.
\<close>

theorem missing_table_counterexample:
  "find_table empty_db ''ssh_connections'' = None
   \<and> upgrade empty_db = Inr \<lparr>outcome = Skipped, executed = [], final_db = empty_db\<rparr>"
  by code_simp

text \<open>
  C7 (amended). If the table \<^verbatim>\<open>ssh_connections\<close> does not exist, the guard query
  answers with no rows and \<^verbatim>\<open>upgrade\<close> takes the skip path: it returns without an
  error, having executed no statement, and the database is unchanged.
\<close>

theorem missing_table_is_skipped:
  assumes "find_table db ''ssh_connections'' = None"
  shows "upgrade db = Inr \<lparr>outcome = Skipped, executed = [], final_db = db\<rparr>"
  using assms by (intro upgrade_skip) (simp add: table_foreign_keys_def has_cascade_def)

theorem missing_table_is_skipped_witness:
  "upgrade \<lparr>db_tables = [(''ssh_keys'', ssh_keys_table)], db_indexes = []\<rparr>
     = Inr \<lparr>outcome = Skipped, executed = [],
            final_db = \<lparr>db_tables = [(''ssh_keys'', ssh_keys_table)], db_indexes = []\<rparr>\<rparr>"
proof -
  have "find_table \<lparr>db_tables = [(''ssh_keys'', ssh_keys_table)], db_indexes = []\<rparr>
          ''ssh_connections'' = None"
    by (simp add: find_table_def)
  then show ?thesis by (rule missing_table_is_skipped)
qed

subsection \<open>What the handler leaves behind\<close>

lemma run_stmts_failed:
  assumes "replay eng db pre = Inr db'" and "execute eng db' s = Inl e"
  shows "run_stmts eng db done_stmts (pre @ s # rest)
         = \<lparr>outcome = Failed e, executed = done_stmts @ pre, final_db = db'\<rparr>"
  using assms
proof (induction pre arbitrary: db done_stmts)
  case Nil
  then show ?case by simp
next
  case (Cons p pre)
  then show ?case by (cases "execute eng db p") simp_all
qed

lemma run_stmts_fixed:
  assumes "replay eng db ss = Inr db'"
  shows "run_stmts eng db done_stmts ss
         = \<lparr>outcome = Fixed, executed = done_stmts @ ss, final_db = db'\<rparr>"
  using assms
proof (induction ss arbitrary: db done_stmts)
  case Nil
  then show ?case by simp
next
  case (Cons s ss)
  then show ?case by (cases "execute eng db s") simp_all
qed



text \<open>
  C8. On every engine and in every state in which the guard query answers,
  \<^verbatim>\<open>upgrade\<close> returns (\<open>Inr\<close>, never \<open>Inl\<close>). Once the rebuild is entered: if the
  column query raises \<open>e\<close>, the call returns with outcome \<open>Failed e\<close>, nothing
  executed and the database untouched; if the statements \<open>pre\<close> of the rebuild
  succeed and the next statement raises \<open>e\<close>, the call returns with outcome
  \<open>Failed e\<close> (the handler prints \<open>e\<close>), exactly \<open>pre\<close> executed and the database
  as \<open>pre\<close> left it; and if all statements succeed the outcome is \<open>Fixed\<close>.
\<close>

theorem rebuild_failure_is_caught:
  assumes "pragma_foreign_key_list eng db ''ssh_connections'' = Inr fk_rows"
  shows "(\<exists>r. upgrade_with eng db = Inr r)
     \<and> (has_cascade fk_rows \<longrightarrow>
          (\<forall>e. pragma_table_info eng db ''ssh_connections'' = Inl e \<longrightarrow>
                upgrade_with eng db
                  = Inr \<lparr>outcome = Failed e, executed = [], final_db = db\<rparr>)
        \<and> (\<forall>col_rows pre s rest db' e.
                pragma_table_info eng db ''ssh_connections'' = Inr col_rows
              \<and> rebuild_stmts col_rows = pre @ s # rest
              \<and> replay eng db pre = Inr db' \<and> execute eng db' s = Inl e \<longrightarrow>
                upgrade_with eng db
                  = Inr \<lparr>outcome = Failed e, executed = pre, final_db = db'\<rparr>)
        \<and> (\<forall>col_rows db'.
                pragma_table_info eng db ''ssh_connections'' = Inr col_rows
              \<and> replay eng db (rebuild_stmts col_rows) = Inr db' \<longrightarrow>
                upgrade_with eng db
                  = Inr \<lparr>outcome = Fixed, executed = rebuild_stmts col_rows,
                         final_db = db'\<rparr>))"
proof -
  have "\<exists>r. upgrade_with eng db = Inr r"
    using assms by (simp add: upgrade_with_def split: sum.splits)
  moreover have "upgrade_with eng db = Inr \<lparr>outcome = Failed e, executed = [], final_db = db\<rparr>"
    if "has_cascade fk_rows" "pragma_table_info eng db ''ssh_connections'' = Inl e" for e
    using that assms by (simp add: upgrade_with_def)
  moreover have "upgrade_with eng db
      = Inr \<lparr>outcome = Failed e, executed = pre, final_db = db'\<rparr>"
    if "has_cascade fk_rows" "pragma_table_info eng db ''ssh_connections'' = Inr col_rows"
      "rebuild_stmts col_rows = pre @ s # rest" "replay eng db pre = Inr db'"
      "execute eng db' s = Inl e" for col_rows pre s rest db' e
    using that assms run_stmts_failed [of eng db pre db' s e "[]" rest]
    by (simp add: upgrade_with_def)
  moreover have "upgrade_with eng db
      = Inr \<lparr>outcome = Fixed, executed = rebuild_stmts col_rows, final_db = db'\<rparr>"
    if "has_cascade fk_rows" "pragma_table_info eng db ''ssh_connections'' = Inr col_rows"
      "replay eng db (rebuild_stmts col_rows) = Inr db'" for col_rows db'
    using that assms run_stmts_fixed [of eng db "rebuild_stmts col_rows" db' "[]"]
    by (simp add: upgrade_with_def)
  ultimately show ?thesis by blast
qed

theorem rebuild_failure_is_caught_witness:
  "upgrade_with sqlite composite_pk_db
     = Inr \<lparr>outcome = Failed (MultiplePrimaryKeys ''ssh_connections_new''),
            executed = [DropTableIfExists ''ssh_connections_new''],
            final_db = composite_pk_db\<rparr>"
proof -
  let ?cols = "[col 0 ''host'' ''TEXT'' False None 1, col 1 ''ssh_key_id'' ''INTEGER'' False None 2]"
  have fks: "pragma_foreign_key_list sqlite composite_pk_db ''ssh_connections''
      = Inr [fk 0 ''ssh_keys'' ''ssh_key_id'' ''id'' ''CASCADE'']"
    by code_simp
  have casc: "has_cascade [fk 0 ''ssh_keys'' ''ssh_key_id'' ''id'' ''CASCADE'']"
    by code_simp
  have cols: "pragma_table_info sqlite composite_pk_db ''ssh_connections'' = Inr ?cols"
    by code_simp
  have split: "rebuild_stmts ?cols
      = [DropTableIfExists ''ssh_connections_new'']
        @ CreateTable ''ssh_connections_new'' (map col_def_of ?cols) [ssh_key_fk]
        # tl (tl (rebuild_stmts ?cols))"
    by (simp add: rebuild_stmts_def)
  have pre: "replay sqlite composite_pk_db [DropTableIfExists ''ssh_connections_new'']
      = Inr composite_pk_db"
    by code_simp
  have fails: "execute sqlite composite_pk_db
      (CreateTable ''ssh_connections_new'' (map col_def_of ?cols) [ssh_key_fk])
      = Inl (MultiplePrimaryKeys ''ssh_connections_new'')"
    by code_simp
  from rebuild_failure_is_caught [OF fks] casc cols split pre fails show ?thesis
    by blast
qed

subsection \<open>The foreign keys in the synthesized statement\<close>




subsection \<open>What a completed rebuild has done\<close>

lemma fixed_replay:
  assumes "upgrade db = Inr r" and "outcome r = Fixed"
  shows "has_cascade (table_foreign_keys db ''ssh_connections'')"
    and "replay sqlite db (rebuild_stmts (table_columns db ''ssh_connections''))
           = Inr (final_db r)"
proof -
  show c: "has_cascade (table_foreign_keys db ''ssh_connections'')"
  proof (rule ccontr)
    assume "\<not> has_cascade (table_foreign_keys db ''ssh_connections'')"
    from upgrade_skip [OF this] assms show False by simp
  qed
  let ?ss = "rebuild_stmts (table_columns db ''ssh_connections'')"
  from upgrade_rebuild [OF c] assms(1) have r: "r = run_stmts sqlite db [] ?ss"
    by simp
  obtain pre where "replay sqlite db pre = Inr (final_db (run_stmts sqlite db [] ?ss))"
    and "case outcome (run_stmts sqlite db [] ?ss) of
          Skipped \<Rightarrow> False | Fixed \<Rightarrow> pre = ?ss
        | Failed e \<Rightarrow>
            (\<exists>s rest. ?ss = pre @ s # rest
               \<and> execute sqlite (final_db (run_stmts sqlite db [] ?ss)) s = Inl e)"
    using run_stmts_trace [of sqlite db "[]" ?ss] by (elim exE conjE)
  with r assms(2) show "replay sqlite db ?ss = Inr (final_db r)"
    by simp
qed

lemma replay_rebuild:
  assumes "replay sqlite db (rebuild_stmts cols) = Inr db'"
  obtains db1 db2 db4 where
    "create_table (drop_table db ''ssh_connections_new'') ''ssh_connections_new''
       (map col_def_of cols) [ssh_key_fk] = Inr db1"
    and "insert_select db1 ''ssh_connections_new'' (map col_name cols) ''ssh_connections''
       = Inr db2"
    and "find_table db2 ''ssh_connections'' \<noteq> None"
    and "rename_table (drop_table db2 ''ssh_connections'') ''ssh_connections_new''
       ''ssh_connections'' = Inr db4"
    and "create_index db4 ''ix_ssh_connections_ssh_key_id'' ''ssh_connections''
       [''ssh_key_id''] = Inr db'"
  using assms
  by (simp add: rebuild_stmts_def sqlite_simps split: sum.splits if_splits)

lemma create_table_Inr:
  assumes "create_table db n defs fks = Inr db'"
  shows "db' = db\<lparr>db_tables := db_tables db @ [(n, new_table defs fks)]\<rparr>"
    and "find_table db n = None"
    and "list_all plain_col_def defs"
    and "distinct (map cd_name defs)"
    and "find (\<lambda>k. fkc_from k \<notin> set (map cd_name defs)) fks = None"
  using assms
  by (simp_all add: create_table_def split: if_splits option.splits)

lemma insert_select_Inr:
  assumes "insert_select db dst cols src = Inr db'"
  obtains td ts rows where "find_table db dst = Some td" and "find_table db src = Some ts"
    and "store_rows td (t_rows td) (map (copied_row td cols ts) (t_rows ts)) = Inr rows"
    and "db' = set_rows db dst rows"
  using assms
  by (simp add: insert_select_def split: if_splits option.splits sum.splits)

lemma find_table_set_rows:
  "find_table (set_rows db n rows) m =
     (if m = n then map_option (\<lambda>t. t\<lparr>t_rows := rows\<rparr>) (find_table db m)
      else find_table db m)"
proof -
  have "map_of (map (\<lambda>(k, t). if k = n then (k, t\<lparr>t_rows := rows\<rparr>) else (k, t)) xs) m
        = (if m = n then map_option (\<lambda>t. t\<lparr>t_rows := rows\<rparr>) (map_of xs m)
           else map_of xs m)"
    for xs :: "(string \<times> sql_table) list"
    by (induction xs) auto
  then show ?thesis by (simp add: find_table_def set_rows_def)
qed

lemma rename_table_Inr:
  assumes "rename_table db a b = Inr db'"
  shows "find_table db' m
         = (if m = b then find_table db a else if m = a then None else find_table db m)"
proof -
  from assms have b: "find_table db b = None"
    and db': "db' = \<lparr>db_tables = map (\<lambda>(m, t). (if m = a then b else m, t)) (db_tables db),
                db_indexes = map (\<lambda>(i, m, cs). (i, if m = a then b else m, cs)) (db_indexes db)\<rparr>"
    by (simp_all add: rename_table_def split: if_splits)
  show ?thesis
    unfolding db' by (rule find_table_renamed [OF b])
qed

lemma create_index_Inr:
  assumes "create_index db ix tbl cols = Inr db'"
  shows "find_table db' m = find_table db m"
  using assms
  by (auto simp: create_index_def split: option.splits if_splits)

subsection \<open>Rows offered to the scratch table\<close>











lemma scratch_foreign_keys:
  "t_foreign_keys (scratch_table cols) = [new_foreign_key (0, ssh_key_fk)]"
  by (simp add: scratch_table_def new_table_def)





lemma find_table_with_scratch:
  "find_table (with_scratch db cols) m
     = (if m = ''ssh_connections_new'' then Some (scratch_table cols) else find_table db m)"
  by (simp add: with_scratch_def find_table_created find_table_drop_table split: option.splits)

text \<open>The table after a completed rebuild, in terms of the rows the scratch table
  accepted.\<close>

lemma fixed_table:
  assumes up: "upgrade db = Inr r" and fixed: "outcome r = Fixed"
    and t: "find_table db ''ssh_connections'' = Some t"
  obtains rows where
    "store_rows (scratch_table (t_columns t)) [] (copied_rows t) = Inr rows"
    and "find_table (final_db r) ''ssh_connections''
           = Some ((scratch_table (t_columns t))\<lparr>t_rows := rows\<rparr>)"
    and "find_table (final_db r) ''ssh_connections_new'' = None"
    and "plain_columns (t_columns t)"
proof -
  have cols: "table_columns db ''ssh_connections'' = t_columns t"
    using t by (simp add: table_columns_def)
  from fixed_replay(2) [OF up fixed]
  have "replay sqlite db (rebuild_stmts (t_columns t)) = Inr (final_db r)"
    by (simp add: cols)
  then obtain db1 db2 db4 where
    c: "create_table (drop_table db ''ssh_connections_new'') ''ssh_connections_new''
       (map col_def_of (t_columns t)) [ssh_key_fk] = Inr db1"
    and i: "insert_select db1 ''ssh_connections_new'' (map col_name (t_columns t))
       ''ssh_connections'' = Inr db2"
    and rn: "rename_table (drop_table db2 ''ssh_connections'') ''ssh_connections_new''
       ''ssh_connections'' = Inr db4"
    and ix: "create_index db4 ''ix_ssh_connections_ssh_key_id'' ''ssh_connections''
       [''ssh_key_id''] = Inr (final_db r)"
    by (rule replay_rebuild)
  have db1: "db1 = with_scratch db (t_columns t)"
    using create_table_Inr(1) [OF c] by (simp add: with_scratch_def scratch_table_def)
  have plain: "plain_columns (t_columns t)"
    using create_table_Inr(3) [OF c] by (simp add: plain_columns_def)
  from i obtain td ts rows where td: "find_table db1 ''ssh_connections_new'' = Some td"
    and ts: "find_table db1 ''ssh_connections'' = Some ts"
    and st: "store_rows td (t_rows td)
               (map (copied_row td (map col_name (t_columns t)) ts) (t_rows ts)) = Inr rows"
    and db2: "db2 = set_rows db1 ''ssh_connections_new'' rows"
    by (rule insert_select_Inr)
  from td ts t have td': "td = scratch_table (t_columns t)" and ts': "ts = t"
    by (simp_all add: db1 find_table_with_scratch)
  have st': "store_rows (scratch_table (t_columns t)) [] (copied_rows t) = Inr rows"
    using st by (simp add: td' ts' copied_rows_def scratch_table_def new_table_def)
  have f2: "find_table db2 m
      = (if m = ''ssh_connections_new''
         then Some ((scratch_table (t_columns t))\<lparr>t_rows := rows\<rparr>) else find_table db m)" for m
    by (simp add: db2 db1 find_table_set_rows find_table_with_scratch)
  have f4: "find_table db4 m
      = (if m = ''ssh_connections''
         then Some ((scratch_table (t_columns t))\<lparr>t_rows := rows\<rparr>)
         else if m = ''ssh_connections_new'' then None else find_table db m)" for m
    by (simp add: rename_table_Inr [OF rn] find_table_drop_table f2)
  have f5: "find_table (final_db r) m = find_table db4 m" for m
    by (rule create_index_Inr [OF ix])
  show ?thesis
    using that [OF st' _ _ plain] by (simp add: f5 f4)
qed



lemma on_delete_actions_rebuilt:
  assumes "find_table db' ''ssh_connections''
             = Some ((scratch_table cols)\<lparr>t_rows := rows\<rparr>)"
  shows "on_delete_actions db' = [(''ssh_key_id'', ''SET NULL'')]"
  using assms
  by (simp add: on_delete_actions_def table_foreign_keys_def scratch_foreign_keys
      new_foreign_key_def ssh_key_fk_def)

subsection \<open>Foreign keys after the call\<close>

text \<open>
  C1 (as stated, refuted). In the example with the delete action RESTRICT on the
  \<^verbatim>\<open>ssh_key_id\<close> foreign key, \<^verbatim>\<open>upgrade\<close> returns and the action is still
  RESTRICT, not SET NULL.
\<close>

theorem restrict_is_kept_counterexample:
  "on_delete_actions (example_db ''RESTRICT'') = [(''ssh_key_id'', ''RESTRICT'')]
   \<and> upgrade (example_db ''RESTRICT'')
       = Inr \<lparr>outcome = Skipped, executed = [], final_db = example_db ''RESTRICT''\<rparr>
   \<and> on_delete_actions (upgraded (example_db ''RESTRICT'')) = [(''ssh_key_id'', ''RESTRICT'')]"
  by code_simp

text \<open>
  C1 (amended). \<^verbatim>\<open>upgrade\<close> always returns. When it has completed the rebuild of a
  table whose column names, types and defaults are plain text (it enters the rebuild
  only if some foreign key of the table has the delete action CASCADE), the delete
  action of the \<^verbatim>\<open>ssh_key_id\<close> foreign key is SET NULL, and that foreign key is the
  only one of the table: no other foreign key is kept. When no foreign key of the table
  has the delete action CASCADE (so also when the action on \<^verbatim>\<open>ssh_key_id\<close> is
  NO ACTION, SET DEFAULT or RESTRICT), the call skips and the database, with every
  delete action, is as before.
\<close>

theorem upgrade_on_delete_actions:
  "\<exists>r. upgrade db = Inr r
     \<and> (outcome r = Fixed \<and> plain_columns (table_columns db ''ssh_connections'') \<longrightarrow>
          ''CASCADE'' \<in> snd ` set (on_delete_actions db)
          \<and> on_delete_actions (final_db r) = [(''ssh_key_id'', ''SET NULL'')])
     \<and> (''CASCADE'' \<notin> snd ` set (on_delete_actions db) \<longrightarrow>
          outcome r = Skipped \<and> executed r = [] \<and> final_db r = db)"
proof (cases "has_cascade (table_foreign_keys db ''ssh_connections'')")
  case False
  from upgrade_skip [OF False] False show ?thesis
    by (simp add: on_delete_has_cascade)
next
  case True
  from upgrade_rebuild [OF True] obtain r where r: "upgrade db = Inr r"
    by simp
  from True have c: "''CASCADE'' \<in> snd ` set (on_delete_actions db)"
    by (simp add: on_delete_has_cascade)
  from True obtain t where t: "find_table db ''ssh_connections'' = Some t"
    by (rule has_cascade_table)
  have "on_delete_actions (final_db r) = [(''ssh_key_id'', ''SET NULL'')]"
    if "outcome r = Fixed"
  proof -
    from r that t obtain rows where
      "find_table (final_db r) ''ssh_connections''
         = Some ((scratch_table (t_columns t))\<lparr>t_rows := rows\<rparr>)"
      by (rule fixed_table)
    then show ?thesis by (rule on_delete_actions_rebuilt)
  qed
  with r c show ?thesis by simp
qed

theorem upgrade_on_delete_actions_witness:
  "on_delete_actions (example_db ''CASCADE'') = [(''ssh_key_id'', ''CASCADE'')]
   \<and> plain_columns (table_columns (example_db ''CASCADE'') ''ssh_connections'')
   \<and> map_sum id outcome (upgrade (example_db ''CASCADE'')) = Inr Fixed
   \<and> on_delete_actions (upgraded (example_db ''CASCADE'')) = [(''ssh_key_id'', ''SET NULL'')]
   \<and> on_delete_actions (upgraded (example_db ''SET DEFAULT'')) = [(''ssh_key_id'', ''SET DEFAULT'')]"
proof -
  have a: "on_delete_actions (example_db ''CASCADE'') = [(''ssh_key_id'', ''CASCADE'')]"
    and b: "map_sum id outcome (upgrade (example_db ''CASCADE'')) = Inr Fixed"
    and c: "on_delete_actions (example_db ''SET DEFAULT'') = [(''ssh_key_id'', ''SET DEFAULT'')]"
    and p: "plain_columns (table_columns (example_db ''CASCADE'') ''ssh_connections'')"
    by code_simp+
  from upgrade_on_delete_actions [of "example_db ''CASCADE''"] b p
  have "on_delete_actions (upgraded (example_db ''CASCADE'')) = [(''ssh_key_id'', ''SET NULL'')]"
    by (auto simp: upgraded_def)
  moreover from upgrade_on_delete_actions [of "example_db ''SET DEFAULT''"] c
  have "on_delete_actions (upgraded (example_db ''SET DEFAULT''))
      = [(''ssh_key_id'', ''SET DEFAULT'')]"
    by (auto simp: upgraded_def)
  ultimately show ?thesis using a b p by simp
qed

subsection \<open>The table after a completed rebuild\<close>




end
